theory Spec2Isabelle
  imports Complex_Main "HOL-Library.Word"
begin

section \<open>Data model\<close>

text \<open>
  A C++ \<^verbatim>\<open>double\<close> is modelled by a real number and a
  \<^verbatim>\<open>std::complex< double >\<close> by a complex number: rounding, infinities and NaN are
  outside the model. Where C++ divides by zero (an infinity or a NaN), HOL returns 0; the
  statements that depend on a quotient say so. An \<^verbatim>\<open>unsigned\<close> is a 32-bit word, so
  that \<^verbatim>\<open>_cacheIdxReal++\<close> wraps around. A \<^verbatim>\<open>std::vector\<close> is a list and
  a \<^verbatim>\<open>std::map\<close> is a partial function.
\<close>

type_synonym unsigned = "32 word"

type_synonym cacheRealMap = "unsigned \<rightharpoonup> real list"

type_synonym cacheComplexMap = "unsigned \<rightharpoonup> complex list"

text \<open>
  \<^verbatim>\<open>v[ i ]\<close> on a \<^verbatim>\<open>std::vector\<close> is undefined behaviour when \<open>i\<close> is out of range;
  the model returns \<open>None\<close> there.
\<close>

definition vec_at :: "'a list \<Rightarrow> nat \<Rightarrow> 'a option" where
  "vec_at v i = (if i < length v then Some (v ! i) else None)"

text \<open>
  Modelled from the spec: the class \<^verbatim>\<open>Parameter\<close> (cfit/parameter.hh) is not among the
  sources. The spec describes it as a scalar with a current value and a fixed/floating flag.
\<close>

record Parameter =
  pvalue :: real
  isFixed :: bool

text \<open>
  Modelled from the spec: the class \<^verbatim>\<open>Dataset\<close> (cfit/dataset.hh) is not among the
  sources. The spec describes it as an ordered, fixed-size collection of entries, each holding
  named variable values. \<^verbatim>\<open>data.size()\<close> is the number of entries and
  \<^verbatim>\<open>data.value( name, entry )\<close> the value of a variable at an entry.
\<close>

type_synonym Dataset = "(string \<Rightarrow> real) list"

definition Dataset_size :: "Dataset \<Rightarrow> nat" where
  "Dataset_size data = length data"

definition Dataset_value :: "Dataset \<Rightarrow> string \<Rightarrow> nat \<Rightarrow> real" where
  "Dataset_value data name entry = (data ! entry) name"


section \<open>Gauss\<close>

text \<open>
  The fields of \<^verbatim>\<open>Gauss\<close> as its constructor initialises them. \<open>Gauss_par0\<close> and
  \<open>Gauss_par1\<close> are \<^verbatim>\<open>getPar( 0 )\<close> and \<^verbatim>\<open>getPar( 1 )\<close>, the parameters
  \<open>mu\<close> and \<open>sigma\<close> pushed by the constructor from two \<^verbatim>\<open>Parameter\<close>s, and
  \<^verbatim>\<open>_mu.evaluate()\<close>, \<^verbatim>\<open>_sigma.evaluate()\<close> are their values.
  \<open>Gauss_varName\<close> is \<^verbatim>\<open>getVar( 0 ).name()\<close>.
\<close>

record Gauss =
  Gauss_varName :: string
  Gauss_par0 :: Parameter
  Gauss_par1 :: Parameter
  Gauss_hasLower :: bool
  Gauss_hasUpper :: bool
  Gauss_lower :: real
  Gauss_upper :: real
  Gauss_norm :: real
  Gauss_doCache :: bool
  Gauss_cacheIdx :: unsigned

definition Gauss_mu :: "Gauss \<Rightarrow> real" where
  "Gauss_mu g = pvalue (Gauss_par0 g)"

definition Gauss_sigma :: "Gauss \<Rightarrow> real" where
  "Gauss_sigma g = pvalue (Gauss_par1 g)"

text \<open>
  \<^verbatim>\<open>Gauss::cache()\<close>. \<^verbatim>\<open>Math::erf\<close> (cfit/math.hh) is not among the sources and
  is the parameter \<open>erf\<close>. Only \<^verbatim>\<open>_norm\<close> is assigned.
\<close>

definition Gauss_cache :: "(real \<Rightarrow> real) \<Rightarrow> Gauss \<Rightarrow> Gauss" where
  "Gauss_cache erf g =
     (let vmu = Gauss_mu g;
          vsigma = Gauss_sigma g;
          sqrt2 = sqrt 2;
          argmin = (if Gauss_hasLower g
                    then 1 + erf ((Gauss_lower g - vmu) / (vsigma * sqrt2)) else 0);
          argmax = (if Gauss_hasUpper g
                    then 1 + erf ((Gauss_upper g - vmu) / (vsigma * sqrt2)) else 2);
          factor = vsigma * sqrt (pi / 2)
      in g\<lparr>Gauss_norm := factor * (argmax - argmin)\<rparr>)"

text \<open>\<^verbatim>\<open>Gauss::evaluate( const double& x )\<close>.\<close>

definition Gauss_evaluate :: "Gauss \<Rightarrow> real \<Rightarrow> real" where
  "Gauss_evaluate g x =
     exp (- 0.5 * (x - Gauss_mu g) ^ 2 / (Gauss_sigma g) ^ 2) / Gauss_norm g"

text \<open>\<^verbatim>\<open>Gauss::evaluate( const std::vector< double >& vars )\<close>: reads \<^verbatim>\<open>vars[ 0 ]\<close>.\<close>

definition Gauss_evaluate_vars :: "Gauss \<Rightarrow> real list \<Rightarrow> real option" where
  "Gauss_evaluate_vars g vars = map_option (Gauss_evaluate g) (vec_at vars 0)"

text \<open>
  \<^verbatim>\<open>Gauss::evaluate( vars, cacheR, cacheC )\<close>: the cached path, which reads
  \<^verbatim>\<open>cacheR[ _cacheIdx ]\<close> when \<^verbatim>\<open>_doCache\<close> is set.
\<close>

definition Gauss_evaluate_cached ::
    "Gauss \<Rightarrow> real list \<Rightarrow> real list \<Rightarrow> complex list \<Rightarrow> real option" where
  "Gauss_evaluate_cached g vars cacheR cacheC =
     (if \<not> Gauss_doCache g then Gauss_evaluate_vars g vars
      else vec_at cacheR (unat (Gauss_cacheIdx g)))"

text \<open>
  \<^verbatim>\<open>cached[ idx ].push_back( v )\<close>: \<^verbatim>\<open>operator[]\<close> of a \<^verbatim>\<open>std::map\<close>
  inserts an empty vector under a key that is absent.
\<close>

definition push_back_at :: "cacheRealMap \<Rightarrow> unsigned \<Rightarrow> real \<Rightarrow> cacheRealMap" where
  "push_back_at cached idx v =
     cached(idx \<mapsto> (case cached idx of None \<Rightarrow> [] | Some vs \<Rightarrow> vs) @ [v])"

text \<open>
  \<^verbatim>\<open>Gauss::cacheReal( const Dataset& data )\<close>. The static counter
  \<^verbatim>\<open>PdfBase::_cacheIdxReal\<close> is threaded through as the second component of the state;
  the result is the returned mapping, the model and the counter after the call.
\<close>

definition cacheReal :: "Dataset \<Rightarrow> Gauss \<times> unsigned \<Rightarrow> cacheRealMap \<times> Gauss \<times> unsigned" where
  "cacheReal data s =
     (case s of (g, cacheIdxReal) \<Rightarrow>
        let g1 = g\<lparr>Gauss_doCache := isFixed (Gauss_par0 g) \<and> isFixed (Gauss_par1 g)\<rparr>;
            cached = Map.empty
        in if \<not> Gauss_doCache g1 then (cached, g1, cacheIdxReal)
           else
             let g2 = g1\<lparr>Gauss_cacheIdx := cacheIdxReal\<rparr>;
                 cacheIdxReal' = cacheIdxReal + 1;
                 varname = Gauss_varName g2;
                 size = Dataset_size data
             in (fold (\<lambda>entry cached.
                         push_back_at cached (Gauss_cacheIdx g2)
                           (Gauss_evaluate g2 (Dataset_value data varname entry)))
                   [0..<size] cached,
                 g2, cacheIdxReal'))"

text \<open>
  Modelled from the spec: the code that builds the per-entry slice \<open>cacheR\<close> handed to
  \<^verbatim>\<open>evaluate( vars, cacheR, cacheC )\<close> (the objective function of a minimizer) is not
  among the sources. The spec calls it the per-entry cache slice of the registry: the vector
  that holds, at every index of the registry, the value stored for this entry.
\<close>

definition isSliceOf :: "cacheRealMap \<Rightarrow> nat \<Rightarrow> real list \<Rightarrow> bool" where
  "isSliceOf cached entry cacheR =
     (\<forall>idx \<in> dom cached.
        vec_at cacheR (unat idx) = Option.bind (cached idx) (\<lambda>vs. vec_at vs entry))"

text \<open>
  A sequence of \<^verbatim>\<open>cacheReal\<close> calls, each by a model on a dataset, sharing the static
  counter. The result holds the models after their calls and the counter after the last one.
\<close>

fun cacheReal_calls :: "(Gauss \<times> Dataset) list \<Rightarrow> unsigned \<Rightarrow> Gauss list \<times> unsigned" where
  "cacheReal_calls [] cacheIdxReal = ([], cacheIdxReal)"
| "cacheReal_calls (c # cs) cacheIdxReal =
     (case cacheReal (snd c) (fst c, cacheIdxReal) of
        (cached, g', cacheIdxReal') \<Rightarrow>
          (case cacheReal_calls cs cacheIdxReal' of
             (gs, cacheIdxReal'') \<Rightarrow> (g' # gs, cacheIdxReal'')))"

text \<open>
  The indices handed out by a sequence of calls, in the order of the calls: the
  \<^verbatim>\<open>_cacheIdx\<close> of every model that was cached.
\<close>

definition assignedIdxs :: "Gauss list \<Rightarrow> unsigned list" where
  "assignedIdxs gs = map Gauss_cacheIdx (filter Gauss_doCache gs)"

text \<open>
  The condition under which \<^verbatim>\<open>cacheReal\<close> caches: both parameters are fixed.
\<close>

definition cacheable :: "Gauss \<Rightarrow> bool" where
  "cacheable g = (isFixed (Gauss_par0 g) \<and> isFixed (Gauss_par1 g))"

text \<open>The number of calls of a sequence that cache, and so take an index.\<close>

definition nCached :: "(Gauss \<times> Dataset) list \<Rightarrow> nat" where
  "nCached cs = length (filter (\<lambda>c. cacheable (fst c)) cs)"

text \<open>
  The density at the variable's value, entry by entry: the sequence to be stored under a cache
  index.
\<close>

definition cachedValues :: "Gauss \<Rightarrow> Dataset \<Rightarrow> real list" where
  "cachedValues g data =
     map (\<lambda>entry. Gauss_evaluate g (Dataset_value data (Gauss_varName g) entry))
       [0..<Dataset_size data]"

text \<open>
  The constructor \<^verbatim>\<open>Gauss( x, mu, sigma )\<close>: no limits, \<^verbatim>\<open>_doCache\<close> false,
  \<^verbatim>\<open>_cacheIdx\<close> at 0, and a first call of \<^verbatim>\<open>cache()\<close>. The constructor
  leaves \<^verbatim>\<open>_norm\<close> to that call, which assigns it; the 0 before the call is never
  read.
\<close>

definition Gauss_new :: "(real \<Rightarrow> real) \<Rightarrow> string \<Rightarrow> Parameter \<Rightarrow> Parameter \<Rightarrow> Gauss" where
  "Gauss_new erf x mu sigma =
     Gauss_cache erf
       \<lparr>Gauss_varName = x, Gauss_par0 = mu, Gauss_par1 = sigma,
        Gauss_hasLower = False, Gauss_hasUpper = False, Gauss_lower = 0, Gauss_upper = 0,
        Gauss_norm = 0, Gauss_doCache = False, Gauss_cacheIdx = 0\<rparr>"


section \<open>Minimizer\<close>

text \<open>
  The fields of \<^verbatim>\<open>Minimizer\<close>, for a minimizer whose \<^verbatim>\<open>_pdf\<close> is a Gauss model.
\<close>

record Minimizer =
  Minimizer_pdf :: Gauss
  Minimizer_data :: Dataset
  Minimizer_cacheR :: cacheRealMap
  Minimizer_cacheC :: cacheComplexMap
  Minimizer_up :: real

text \<open>
  \<^verbatim>\<open>m.insert( first, last )\<close> of a \<^verbatim>\<open>std::map\<close>: an element is inserted only if
  its key is not in \<open>m\<close> yet.
\<close>

definition map_insert :: "('k \<rightharpoonup> 'v) \<Rightarrow> ('k \<rightharpoonup> 'v) \<Rightarrow> ('k \<rightharpoonup> 'v)" where
  "map_insert m new = (\<lambda>k. case m k of Some v \<Rightarrow> Some v | None \<Rightarrow> new k)"

text \<open>
  \<^verbatim>\<open>PdfBase::cacheComplex\<close>, which \<^verbatim>\<open>Gauss\<close> does not override in the sources.
  Its body is empty: control flows off the end of a function that returns a value, which is
  undefined behaviour. The call has no result in the model.
\<close>

definition PdfBase_cacheComplex :: "Dataset \<Rightarrow> cacheComplexMap option" where
  "PdfBase_cacheComplex data = None"

text \<open>
  \<^verbatim>\<open>Minimizer::cache()\<close>, with the static counter threaded through. The call
  \<^verbatim>\<open>_pdf.cacheComplex( _data )\<close> is virtual: the parameter \<open>cacheComplex\<close> is the
  member that the call reaches, \<open>PdfBase_cacheComplex\<close> for a Gauss model as the sources have
  it, or the member of a class that overrides it. Where that call has no result,
  \<^verbatim>\<open>cache()\<close> has none either.
\<close>

definition Minimizer_cache ::
    "(Dataset \<Rightarrow> cacheComplexMap option) \<Rightarrow> Minimizer \<times> unsigned
       \<Rightarrow> (Minimizer \<times> unsigned) option" where
  "Minimizer_cache cacheComplex s =
     (case s of (m, cacheIdxReal) \<Rightarrow>
        (case cacheReal (Minimizer_data m) (Minimizer_pdf m, cacheIdxReal) of
           (cachedR, pdf', cacheIdxReal') \<Rightarrow>
             (case cacheComplex (Minimizer_data m) of
                None \<Rightarrow> None
              | Some cachedC \<Rightarrow>
                  Some (m\<lparr>Minimizer_pdf := pdf',
                          Minimizer_cacheR := map_insert (Minimizer_cacheR m) cachedR,
                          Minimizer_cacheC := map_insert (Minimizer_cacheC m) cachedC\<rparr>,
                        cacheIdxReal'))))"

text \<open>
  The constructor \<^verbatim>\<open>Minimizer( pdf, data )\<close>: empty cache storage and
  \<^verbatim>\<open>_up\<close> at \<open>-1\<close>.
\<close>

definition Minimizer_new :: "Gauss \<Rightarrow> Dataset \<Rightarrow> Minimizer" where
  "Minimizer_new pdf data =
     \<lparr>Minimizer_pdf = pdf, Minimizer_data = data, Minimizer_cacheR = Map.empty,
      Minimizer_cacheC = Map.empty, Minimizer_up = - 1\<rparr>"


section \<open>Argus\<close>

datatype PdfException = PdfException string

text \<open>
  The fields of \<^verbatim>\<open>Argus\<close>; \<open>Argus_par0\<close> and \<open>Argus_par1\<close> are the parameters
  \<open>c\<close> and \<open>chi\<close>, and \<^verbatim>\<open>_c.evaluate()\<close>, \<^verbatim>\<open>_chi.evaluate()\<close> their values.
\<close>

record Argus =
  Argus_par0 :: Parameter
  Argus_par1 :: Parameter
  Argus_hasLower :: bool
  Argus_hasUpper :: bool
  Argus_lower :: real
  Argus_upper :: real
  Argus_norm :: real

definition Argus_c :: "Argus \<Rightarrow> real" where
  "Argus_c a = pvalue (Argus_par0 a)"

definition Argus_chi :: "Argus \<Rightarrow> real" where
  "Argus_chi a = pvalue (Argus_par1 a)"

text \<open>
  \<^verbatim>\<open>std::pow( x, 1.5 )\<close>, as the real power; it agrees with C++ for \<open>x \<ge> 0\<close> (for
  \<open>x < 0\<close> C++ returns a NaN).
\<close>

definition std_pow :: "real \<Rightarrow> real \<Rightarrow> real" where
  "std_pow x y = x powr y"

text \<open>
  \<^verbatim>\<open>Argus::cache()\<close>. \<^verbatim>\<open>Math::gamma_p\<close> (cfit/math.hh) is not among the sources
  and is the parameter \<open>gamma_p\<close>.
\<close>

definition Argus_cache :: "(real \<Rightarrow> real \<Rightarrow> real) \<Rightarrow> Argus \<Rightarrow> Argus" where
  "Argus_cache gamma_p a =
     (let vc = Argus_c a;
          cSq = (Argus_c a) ^ 2;
          chiSq = (Argus_chi a) ^ 2;
          lower = (if Argus_hasLower a then max (Argus_lower a) 0 else 0);
          upper = (if Argus_hasUpper a then min (Argus_upper a) vc else vc);
          argmax = (if Argus_hasLower a then 1 - (lower / vc) ^ 2 else 1);
          argmin = (if Argus_hasUpper a then 1 - (upper / vc) ^ 2 else 0)
      in if chiSq = 0
         then a\<lparr>Argus_norm := cSq / 3 * (std_pow argmax 1.5 - std_pow argmin 1.5)\<rparr>
         else
           let chi3 = (Argus_chi a) ^ 3;
               norm1 = cSq / (2 * chi3) * sqrt (pi / 2)
           in a\<lparr>Argus_norm :=
                  norm1 * (gamma_p 1.5 (chiSq * argmax) - gamma_p 1.5 (chiSq * argmin))\<rparr>)"

text \<open>
  The limit setters. The result is the outcome of the call (\<open>Inl\<close> the exception thrown) and
  the object after the call.
\<close>

definition Argus_setLowerLimit ::
    "(real \<Rightarrow> real \<Rightarrow> real) \<Rightarrow> real \<Rightarrow> Argus \<Rightarrow> (PdfException + unit) \<times> Argus" where
  "Argus_setLowerLimit gamma_p lower a =
     (if lower < 0
      then (Inl (PdfException
        ''Cannot set the lower limit of the Argus distribution to anything smaller than 0.''), a)
      else (Inr (), Argus_cache gamma_p (a\<lparr>Argus_hasLower := True, Argus_lower := lower\<rparr>)))"

definition Argus_setUpperLimit ::
    "(real \<Rightarrow> real \<Rightarrow> real) \<Rightarrow> real \<Rightarrow> Argus \<Rightarrow> (PdfException + unit) \<times> Argus" where
  "Argus_setUpperLimit gamma_p upper a =
     (if upper < 0
      then (Inl (PdfException
        ''Cannot set the upper limit of the generalized Argus distribution to anything smaller than 0.''), a)
      else (Inr (), Argus_cache gamma_p (a\<lparr>Argus_hasUpper := True, Argus_upper := upper\<rparr>)))"

definition Argus_setLimits ::
    "(real \<Rightarrow> real \<Rightarrow> real) \<Rightarrow> real \<Rightarrow> real \<Rightarrow> Argus \<Rightarrow> (PdfException + unit) \<times> Argus" where
  "Argus_setLimits gamma_p lower upper a =
     (if lower < 0
      then (Inl (PdfException
        ''Cannot set the lower limit of the Argus distribution to anything smaller than 0.''), a)
      else if upper < 0
      then (Inl (PdfException
        ''Cannot set the upper limit of the generalized Argus distribution to anything smaller than 0.''), a)
      else (Inr (), Argus_cache gamma_p
              (a\<lparr>Argus_hasLower := True, Argus_hasUpper := True,
                 Argus_lower := lower, Argus_upper := upper\<rparr>)))"

text \<open>
  \<^verbatim>\<open>Argus::area( min, max )\<close>. The products and quotients are those of the real
  numbers: the doubles of the source round them, and a zero or an infinite \<^verbatim>\<open>_norm\<close>
  gives a NaN there.
\<close>

definition Argus_area :: "(real \<Rightarrow> real \<Rightarrow> real) \<Rightarrow> Argus \<Rightarrow> real \<Rightarrow> real \<Rightarrow> real" where
  "Argus_area gamma_p a mn mx =
     (let vc = Argus_c a;
          cSq = (Argus_c a) ^ 2;
          chiSq = (Argus_chi a) ^ 2;
          lower = (if Argus_hasLower a then max (Argus_lower a) 0 else 0);
          upper = (if Argus_hasUpper a then min (Argus_upper a) vc else vc);
          xmin = max mn lower;
          xmax = min mx upper;
          argmax = (if Argus_hasLower a then 1 - (xmin / vc) ^ 2 else 1);
          argmin = (if Argus_hasUpper a then 1 - (xmax / vc) ^ 2 else 0)
      in if chiSq = 0
         then cSq / 3 * (std_pow argmax 1.5 - std_pow argmin 1.5) / Argus_norm a
         else
           let chi3 = (Argus_chi a) ^ 3;
               retval = cSq / (2 * chi3) * sqrt (pi / 2)
           in retval *
                ((gamma_p 1.5 (chiSq * argmax) - gamma_p 1.5 (chiSq * argmin)) / Argus_norm a))"

text \<open>
  The constructor \<^verbatim>\<open>Argus( x, c, chi )\<close>: no limits, and a first call of
  \<^verbatim>\<open>cache()\<close>. The constructor leaves \<^verbatim>\<open>_norm\<close> to that call, which
  assigns it; the 0 before the call is never read.
\<close>

definition Argus_new :: "(real \<Rightarrow> real \<Rightarrow> real) \<Rightarrow> Parameter \<Rightarrow> Parameter \<Rightarrow> Argus" where
  "Argus_new gamma_p c chi =
     Argus_cache gamma_p
       \<lparr>Argus_par0 = c, Argus_par1 = chi, Argus_hasLower = False, Argus_hasUpper = False,
        Argus_lower = 0, Argus_upper = 0, Argus_norm = 0\<rparr>"


section \<open>Decay3BodyCP\<close>

text \<open>
  The fields of \<^verbatim>\<open>Decay3BodyCP\<close> that its inline members use. The class
  \<^verbatim>\<open>Amplitude\<close> (cfit/amplitude.hh) is not among the sources: the amplitude is a value
  of a type \<open>'amp\<close>, and \<^verbatim>\<open>Amplitude::isFixed\<close> is the parameter \<open>amp_isFixed\<close> of
  the setters.
\<close>

record 'amp Decay3BodyCP =
  Decay3BodyCP_amp :: 'amp
  Decay3BodyCP_nDir :: real
  Decay3BodyCP_nCnj :: real
  Decay3BodyCP_nXed :: complex
  Decay3BodyCP_norm :: real
  Decay3BodyCP_fixedAmp :: bool
  Decay3BodyCP_maxPdf :: real

text \<open>The getters \<^verbatim>\<open>nDir()\<close>, \<^verbatim>\<open>nCnj()\<close> and \<^verbatim>\<open>nXed()\<close>.\<close>

definition nDir :: "'amp Decay3BodyCP \<Rightarrow> real" where
  "nDir d = Decay3BodyCP_nDir d"

definition nCnj :: "'amp Decay3BodyCP \<Rightarrow> real" where
  "nCnj d = Decay3BodyCP_nCnj d"

definition nXed :: "'amp Decay3BodyCP \<Rightarrow> complex" where
  "nXed d = Decay3BodyCP_nXed d"

text \<open>\<^verbatim>\<open>setNormComponents( nDir, nCnj, nXed )\<close>.\<close>

definition setNormComponents ::
    "('amp \<Rightarrow> bool) \<Rightarrow> real \<Rightarrow> real \<Rightarrow> complex \<Rightarrow> 'amp Decay3BodyCP \<Rightarrow> 'amp Decay3BodyCP" where
  "setNormComponents amp_isFixed nDir' nCnj' nXed' d =
     (let d1 = d\<lparr>Decay3BodyCP_fixedAmp := amp_isFixed (Decay3BodyCP_amp d)\<rparr>
      in if Decay3BodyCP_fixedAmp d1
         then d1\<lparr>Decay3BodyCP_nDir := nDir',
                 Decay3BodyCP_nCnj := nCnj',
                 Decay3BodyCP_nXed := nXed'\<rparr>
         else d1)"

text \<open>\<^verbatim>\<open>setNormComponents( nDir, nXed )\<close>.\<close>

definition setNormComponents2 ::
    "('amp \<Rightarrow> bool) \<Rightarrow> real \<Rightarrow> complex \<Rightarrow> 'amp Decay3BodyCP \<Rightarrow> 'amp Decay3BodyCP" where
  "setNormComponents2 amp_isFixed nDir' nXed' d =
     (let d1 = d\<lparr>Decay3BodyCP_fixedAmp := amp_isFixed (Decay3BodyCP_amp d)\<rparr>
      in if Decay3BodyCP_fixedAmp d1
         then d1\<lparr>Decay3BodyCP_nDir := nDir',
                 Decay3BodyCP_nCnj := nDir',
                 Decay3BodyCP_nXed := nXed'\<rparr>
         else d1)"


section \<open>Examples\<close>

text \<open>
  The closed examples need functions in place of \<^verbatim>\<open>Math::erf\<close> and
  \<^verbatim>\<open>Math::gamma_p\<close>. Every Gauss example has no limits and every Argus example but
  \<open>argus51\<close> has \<open>chi = 0\<close>: there the source calls neither function, and a constant
  stands in for them. The example \<open>argus51\<close> serves a statement that holds for every function
  in the place of \<^verbatim>\<open>Math::gamma_p\<close>.
\<close>

definition erf0 :: "real \<Rightarrow> real" where
  "erf0 x = 0"

definition gamma_p0 :: "real \<Rightarrow> real \<Rightarrow> real" where
  "gamma_p0 a x = 0"

text \<open>The standard Gauss model, \<open>mu = 0\<close> and \<open>sigma = 1\<close>, both fixed.\<close>

definition gauss_fixed :: Gauss where
  "gauss_fixed =
     Gauss_new erf0 ''x'' \<lparr>pvalue = 0, isFixed = True\<rparr> \<lparr>pvalue = 1, isFixed = True\<rparr>"

text \<open>A dataset of two entries, where every variable is 0 and then 1.\<close>

definition data2 :: Dataset where
  "data2 = [\<lambda>name. 0, \<lambda>name. 1]"

text \<open>The same model with \<open>mu\<close> floating.\<close>

definition gauss_floating :: Gauss where
  "gauss_floating =
     Gauss_new erf0 ''x'' \<lparr>pvalue = 0, isFixed = False\<rparr> \<lparr>pvalue = 1, isFixed = True\<rparr>"

text \<open>Three calls, of which the first and the last cache.\<close>

definition calls3 :: "(Gauss \<times> Dataset) list" where
  "calls3 = [(gauss_fixed, data2), (gauss_floating, data2), (gauss_fixed, [])]"

text \<open>
  The standard model after \<^verbatim>\<open>cacheReal\<close> on \<open>data2\<close>, with \<open>mu\<close> then released
  and moved to 1.
\<close>

definition gauss_released :: Gauss where
  "gauss_released =
     (fst (snd (cacheReal data2 (gauss_fixed, 0))))\<lparr>Gauss_par0 := \<lparr>pvalue = 1, isFixed = False\<rparr>\<rparr>"

text \<open>
  A \<^verbatim>\<open>cacheComplex\<close> that returns the empty mapping, as the member of a model with no
  complex values to cache would.
\<close>

definition cacheComplex_empty :: "Dataset \<Rightarrow> cacheComplexMap option" where
  "cacheComplex_empty data = Some Map.empty"

text \<open>
  The minimizer of the standard model on \<open>data2\<close> and the counter, after one and after two
  calls of \<^verbatim>\<open>cache()\<close> that start with the counter at 0.
\<close>

definition minimizer_once :: "Minimizer \<times> unsigned" where
  "minimizer_once =
     ((Minimizer_new gauss_fixed data2)
        \<lparr>Minimizer_pdf := gauss_fixed\<lparr>Gauss_doCache := True, Gauss_cacheIdx := 0\<rparr>,
         Minimizer_cacheR := [0 \<mapsto> cachedValues gauss_fixed data2]\<rparr>,
      1)"

definition minimizer_twice :: "Minimizer \<times> unsigned" where
  "minimizer_twice =
     ((Minimizer_new gauss_fixed data2)
        \<lparr>Minimizer_pdf := gauss_fixed\<lparr>Gauss_doCache := True, Gauss_cacheIdx := 1\<rparr>,
         Minimizer_cacheR :=
           [0 \<mapsto> cachedValues gauss_fixed data2, 1 \<mapsto> cachedValues gauss_fixed data2]\<rparr>,
      2)"

text \<open>
  The minimizer of the model with \<open>mu\<close> floating and the counter, after a call of
  \<^verbatim>\<open>cache()\<close> that starts with the counter at 0.
\<close>

definition minimizer_floating :: "Minimizer \<times> unsigned" where
  "minimizer_floating =
     ((Minimizer_new gauss_floating data2)
        \<lparr>Minimizer_pdf := gauss_floating\<lparr>Gauss_doCache := False\<rparr>\<rparr>,
      0)"

text \<open>The Argus model with \<open>c = 5\<close> and \<open>chi = 0\<close>.\<close>

definition argus5 :: Argus where
  "argus5 = Argus_new gamma_p0 \<lparr>pvalue = 5, isFixed = True\<rparr> \<lparr>pvalue = 0, isFixed = True\<rparr>"

text \<open>The Argus model with \<open>c = 5\<close> and \<open>chi = 1\<close>.\<close>

definition argus51 :: Argus where
  "argus51 = Argus_new gamma_p0 \<lparr>pvalue = 5, isFixed = True\<rparr> \<lparr>pvalue = 1, isFixed = True\<rparr>"

text \<open>The degenerate Argus model with \<open>c = 0\<close> and \<open>chi = 0\<close>.\<close>

definition argus0 :: Argus where
  "argus0 = Argus_new gamma_p0 \<lparr>pvalue = 0, isFixed = True\<rparr> \<lparr>pvalue = 0, isFixed = True\<rparr>"

text \<open>
  An amplitude as the list of its parameters, fixed when all of them are, and two decay models
  on it: one with a fixed amplitude and one with a floating parameter.
\<close>

definition params_isFixed :: "Parameter list \<Rightarrow> bool" where
  "params_isFixed ps = list_all isFixed ps"

definition decay_fixed :: "Parameter list Decay3BodyCP" where
  "decay_fixed =
     \<lparr>Decay3BodyCP_amp = [\<lparr>pvalue = 1, isFixed = True\<rparr>, \<lparr>pvalue = 2, isFixed = True\<rparr>],
      Decay3BodyCP_nDir = 1, Decay3BodyCP_nCnj = 2, Decay3BodyCP_nXed = \<i>,
      Decay3BodyCP_norm = 1, Decay3BodyCP_fixedAmp = True, Decay3BodyCP_maxPdf = 0\<rparr>"

definition decay_floating :: "Parameter list Decay3BodyCP" where
  "decay_floating =
     \<lparr>Decay3BodyCP_amp = [\<lparr>pvalue = 1, isFixed = True\<rparr>, \<lparr>pvalue = 2, isFixed = False\<rparr>],
      Decay3BodyCP_nDir = 1, Decay3BodyCP_nCnj = 2, Decay3BodyCP_nXed = \<i>,
      Decay3BodyCP_norm = 1, Decay3BodyCP_fixedAmp = True, Decay3BodyCP_maxPdf = 0\<rparr>"


section \<open>Auxiliary facts\<close>

lemma fold_push_back_at:
  "fold (\<lambda>entry cached. push_back_at cached idx (f entry)) [0..<n] m =
     (if n = 0 then m
      else m(idx \<mapsto> (case m idx of None \<Rightarrow> [] | Some vs \<Rightarrow> vs) @ map f [0..<n]))"
proof (induction n)
  case 0
  show ?case by simp
next
  case (Suc n)
  let ?F = "\<lambda>entry cached. push_back_at cached idx (f entry)"
  have "fold ?F [0..<Suc n] m = push_back_at (fold ?F [0..<n] m) idx (f n)"
    by simp
  also have "\<dots> = push_back_at
      (if n = 0 then m
       else m(idx \<mapsto> (case m idx of None \<Rightarrow> [] | Some vs \<Rightarrow> vs) @ map f [0..<n])) idx (f n)"
    by (simp only: Suc.IH)
  also have "\<dots> = m(idx \<mapsto> (case m idx of None \<Rightarrow> [] | Some vs \<Rightarrow> vs) @ map f [0..<Suc n])"
    by (simp add: push_back_at_def)
  finally show ?case by simp
qed

lemma Gauss_evaluate_frame [simp]:
  "Gauss_evaluate (g\<lparr>Gauss_doCache := b\<rparr>) = Gauss_evaluate g"
  "Gauss_evaluate (g\<lparr>Gauss_cacheIdx := i\<rparr>) = Gauss_evaluate g"
  by (simp_all add: Gauss_evaluate_def Gauss_mu_def Gauss_sigma_def fun_eq_iff)

lemma cachedValues_frame [simp]:
  "cachedValues (g\<lparr>Gauss_doCache := b\<rparr>) = cachedValues g"
  "cachedValues (g\<lparr>Gauss_cacheIdx := i\<rparr>) = cachedValues g"
  by (simp_all add: cachedValues_def fun_eq_iff)

lemma cacheReal_floating:
  assumes "\<not> cacheable g"
  shows "cacheReal data (g, ctr) = (Map.empty, g\<lparr>Gauss_doCache := False\<rparr>, ctr)"
  using assms by (simp add: cacheReal_def cacheable_def)

lemma cacheReal_fixed:
  assumes "cacheable g"
  shows "cacheReal data (g, ctr) =
           (if data = [] then Map.empty else [ctr \<mapsto> cachedValues g data],
            g\<lparr>Gauss_doCache := True, Gauss_cacheIdx := ctr\<rparr>, ctr + 1)"
  using assms
  by (simp add: cacheReal_def cacheable_def Let_def fold_push_back_at cachedValues_def
      Dataset_size_def)

lemma Gauss_cache_frame [simp]:
  "Gauss_par0 (Gauss_cache erf g) = Gauss_par0 g"
  "Gauss_par1 (Gauss_cache erf g) = Gauss_par1 g"
  "Gauss_varName (Gauss_cache erf g) = Gauss_varName g"
  "Gauss_doCache (Gauss_cache erf g) = Gauss_doCache g"
  "Gauss_cacheIdx (Gauss_cache erf g) = Gauss_cacheIdx g"
  by (simp_all add: Gauss_cache_def Let_def)

lemma gauss_fixed_simps [simp]:
  "Gauss_par0 gauss_fixed = \<lparr>pvalue = 0, isFixed = True\<rparr>"
  "Gauss_par1 gauss_fixed = \<lparr>pvalue = 1, isFixed = True\<rparr>"
  "Gauss_varName gauss_fixed = ''x''"
  "cacheable gauss_fixed"
  by (simp_all add: gauss_fixed_def Gauss_new_def cacheable_def)


section \<open>The cached path of Gauss\<close>

text \<open>
  C1. For every Gauss model whose parameters are all fixed, after \<^verbatim>\<open>cacheReal( data )\<close>
  the cached-path \<^verbatim>\<open>evaluate( vars, cacheR, cacheC )\<close>, where \<open>cacheR\<close> is the slice of
  the returned mapping at a dataset entry and \<open>vars\<close> starts with the entry's value of the
  variable, returns the same value as the direct \<^verbatim>\<open>evaluate( vars )\<close>, for every entry
  of the dataset.
\<close>

theorem Gauss_cached_path_agrees:
  assumes fixed: "isFixed (Gauss_par0 g)" "isFixed (Gauss_par1 g)"
    and call: "cacheReal data (g, cacheIdxReal) = (cached, g', cacheIdxReal')"
    and entry: "entry < Dataset_size data"
    and slice: "isSliceOf cached entry cacheR"
    and vars: "vec_at vars 0 = Some (Dataset_value data (Gauss_varName g) entry)"
  shows "Gauss_evaluate_cached g' vars cacheR cacheC = Gauss_evaluate_vars g' vars
       \<and> Gauss_evaluate_vars g' vars
           = Some (Gauss_evaluate g (Dataset_value data (Gauss_varName g) entry))"
proof -
  from fixed have c: "cacheable g"
    by (simp add: cacheable_def)
  from entry have ne: "data \<noteq> []"
    by (auto simp: Dataset_size_def)
  from call ne have cached: "cached = [cacheIdxReal \<mapsto> cachedValues g data]"
    and g': "g' = g\<lparr>Gauss_doCache := True, Gauss_cacheIdx := cacheIdxReal\<rparr>"
    by (simp_all add: cacheReal_fixed [OF c])
  have "vec_at (cachedValues g data) entry
          = Some (Gauss_evaluate g (Dataset_value data (Gauss_varName g) entry))"
    using entry by (simp add: vec_at_def cachedValues_def)
  with slice cached have "vec_at cacheR (unat cacheIdxReal)
          = Some (Gauss_evaluate g (Dataset_value data (Gauss_varName g) entry))"
    by (simp add: isSliceOf_def)
  moreover have "Gauss_evaluate_vars g' vars
          = Some (Gauss_evaluate g (Dataset_value data (Gauss_varName g) entry))"
    using vars by (simp add: Gauss_evaluate_vars_def g')
  ultimately show ?thesis
    by (simp add: Gauss_evaluate_cached_def g')
qed

theorem Gauss_cached_path_agrees_witness:
  "isFixed (Gauss_par0 gauss_fixed) \<and> isFixed (Gauss_par1 gauss_fixed)
   \<and> 1 < Dataset_size data2
   \<and> isSliceOf (fst (cacheReal data2 (gauss_fixed, 0))) 1 [Gauss_evaluate gauss_fixed 1]
   \<and> Gauss_evaluate_cached (fst (snd (cacheReal data2 (gauss_fixed, 0)))) [1]
        [Gauss_evaluate gauss_fixed 1] []
      = Gauss_evaluate_vars (fst (snd (cacheReal data2 (gauss_fixed, 0)))) [1]"
proof -
  have f: "isFixed (Gauss_par0 gauss_fixed)" "isFixed (Gauss_par1 gauss_fixed)"
    by simp_all
  have call: "cacheReal data2 (gauss_fixed, 0)
      = ([0 \<mapsto> cachedValues gauss_fixed data2],
         gauss_fixed\<lparr>Gauss_doCache := True, Gauss_cacheIdx := 0\<rparr>, 1)"
    by (simp add: cacheReal_fixed data2_def)
  have entry: "1 < Dataset_size data2"
    by (simp add: Dataset_size_def data2_def)
  have slice: "isSliceOf [0 \<mapsto> cachedValues gauss_fixed data2] 1 [Gauss_evaluate gauss_fixed 1]"
    by (simp add: isSliceOf_def vec_at_def cachedValues_def Dataset_size_def
        Dataset_value_def data2_def)
  have vars: "vec_at [1] 0 = Some (Dataset_value data2 (Gauss_varName gauss_fixed) 1)"
    by (simp add: vec_at_def Dataset_value_def data2_def)
  from Gauss_cached_path_agrees [OF f call entry slice vars, of "[]"] f entry slice
  show ?thesis
    by (simp add: call)
qed

text \<open>
  C7. For every Gauss model in which \<^verbatim>\<open>_doCache\<close> is false, the cached-path
  \<^verbatim>\<open>evaluate( vars, cacheR, cacheC )\<close> returns exactly \<^verbatim>\<open>evaluate( vars )\<close>,
  whatever the slices \<open>cacheR\<close> and \<open>cacheC\<close> hold (also when \<open>vars\<close> is empty, where
  both read out of range).
\<close>

theorem Gauss_evaluate_cached_no_cache:
  assumes "\<not> Gauss_doCache g"
  shows "Gauss_evaluate_cached g vars cacheR cacheC = Gauss_evaluate_vars g vars"
  using assms by (simp add: Gauss_evaluate_cached_def)

theorem Gauss_evaluate_cached_no_cache_witness:
  "\<not> Gauss_doCache gauss_fixed
   \<and> Gauss_evaluate_cached gauss_fixed [0] [42] [] = Gauss_evaluate_vars gauss_fixed [0]"
proof -
  have h: "\<not> Gauss_doCache gauss_fixed"
    by (simp add: gauss_fixed_def Gauss_new_def)
  from Gauss_evaluate_cached_no_cache [OF h, of "[0]" "[42]" "[]"] h
  show ?thesis by simp
qed

lemma gauss_floating_simps [simp]:
  "Gauss_par0 gauss_floating = \<lparr>pvalue = 0, isFixed = False\<rparr>"
  "Gauss_par1 gauss_floating = \<lparr>pvalue = 1, isFixed = True\<rparr>"
  "Gauss_varName gauss_floating = ''x''"
  "\<not> cacheable gauss_floating"
  by (simp_all add: gauss_floating_def Gauss_new_def cacheable_def)

section \<open>The mapping returned by cacheReal\<close>

text \<open>
  C3, as amended. \<^verbatim>\<open>Gauss::cacheReal( data )\<close> returns an empty mapping if some
  parameter is floating, and the counter is left as it is. Otherwise it takes the value of
  \<^verbatim>\<open>_cacheIdxReal\<close> as the model's index and increments the counter; if the dataset
  is not empty, the mapping has exactly that index, with one value per entry, the density at the
  entry's value of the variable; if the dataset is empty, the mapping is empty.
\<close>

theorem cacheReal_mapping:
  assumes "cacheReal data (g, cacheIdxReal) = (cached, g', cacheIdxReal')"
  shows "(\<not> (isFixed (Gauss_par0 g) \<and> isFixed (Gauss_par1 g)) \<longrightarrow>
            cached = Map.empty \<and> cacheIdxReal' = cacheIdxReal)
       \<and> (isFixed (Gauss_par0 g) \<and> isFixed (Gauss_par1 g) \<and> data \<noteq> [] \<longrightarrow>
            dom cached = {cacheIdxReal} \<and> Gauss_cacheIdx g' = cacheIdxReal
            \<and> cacheIdxReal' = cacheIdxReal + 1
            \<and> cached cacheIdxReal =
                Some (map (\<lambda>entry. Gauss_evaluate g (Dataset_value data (Gauss_varName g) entry))
                        [0..<Dataset_size data]))
       \<and> (isFixed (Gauss_par0 g) \<and> isFixed (Gauss_par1 g) \<and> data = [] \<longrightarrow>
            cached = Map.empty \<and> Gauss_cacheIdx g' = cacheIdxReal
            \<and> cacheIdxReal' = cacheIdxReal + 1)"
proof (cases "cacheable g")
  case True
  from assms show ?thesis
    using True by (auto simp: cacheReal_fixed [OF True] cacheable_def cachedValues_def
        split: if_splits)
next
  case False
  from assms show ?thesis
    using False by (auto simp: cacheReal_floating [OF False] cacheable_def)
qed

theorem cacheReal_mapping_witness:
  "fst (cacheReal data2 (gauss_floating, 7)) = Map.empty
   \<and> snd (snd (cacheReal data2 (gauss_floating, 7))) = 7
   \<and> dom (fst (cacheReal data2 (gauss_fixed, 7))) = {7}
   \<and> fst (cacheReal data2 (gauss_fixed, 7)) 7
        = Some [Gauss_evaluate gauss_fixed 0, Gauss_evaluate gauss_fixed 1]
   \<and> snd (snd (cacheReal data2 (gauss_fixed, 7))) = 8
   \<and> fst (cacheReal [] (gauss_fixed, 7)) = Map.empty
   \<and> snd (snd (cacheReal [] (gauss_fixed, 7))) = 8"
proof -
  have a: "cacheReal data2 (gauss_floating, 7)
     = (fst (cacheReal data2 (gauss_floating, 7)), fst (snd (cacheReal data2 (gauss_floating, 7))),
        snd (snd (cacheReal data2 (gauss_floating, 7))))"
    and b: "cacheReal data2 (gauss_fixed, 7)
     = (fst (cacheReal data2 (gauss_fixed, 7)), fst (snd (cacheReal data2 (gauss_fixed, 7))),
        snd (snd (cacheReal data2 (gauss_fixed, 7))))"
    and c: "cacheReal [] (gauss_fixed, 7)
     = (fst (cacheReal [] (gauss_fixed, 7)), fst (snd (cacheReal [] (gauss_fixed, 7))),
        snd (snd (cacheReal [] (gauss_fixed, 7))))"
    by simp_all
  have d: "data2 \<noteq> []" "[0..<Dataset_size data2] = [0, 1]"
    "Dataset_value data2 ''x'' 0 = 0" "Dataset_value data2 ''x'' (Suc 0) = 1"
    by (simp_all add: data2_def Dataset_size_def Dataset_value_def upt_rec)
  from cacheReal_mapping [OF a] cacheReal_mapping [OF b] cacheReal_mapping [OF c] d
  show ?thesis
    by simp
qed

text \<open>
  C3 as stated fails on the empty dataset: the loop never touches
  \<^verbatim>\<open>cached[ _cacheIdx ]\<close>, so the mapping of a model with fixed parameters has no
  index at all.
\<close>

theorem cacheReal_empty_dataset_counterexample:
  "isFixed (Gauss_par0 gauss_fixed) \<and> isFixed (Gauss_par1 gauss_fixed)
   \<and> dom (fst (cacheReal [] (gauss_fixed, 0))) = {}"
  by (simp add: cacheReal_fixed)

section \<open>The indices handed out by the counter\<close>

lemma cacheReal_calls_idxs:
  "assignedIdxs (fst (cacheReal_calls cs c)) = map (\<lambda>i. c + of_nat i) [0..<nCached cs]
   \<and> snd (cacheReal_calls cs c) = c + of_nat (nCached cs)"
proof (induction cs arbitrary: c)
  case Nil
  show ?case by (simp add: assignedIdxs_def nCached_def)
next
  case (Cons a cs)
  obtain g d where a: "a = (g, d)" by (cases a)
  let ?n = "nCached cs"
  show ?case
  proof (cases "cacheable g")
    case True
    have step: "cacheReal_calls (a # cs) c =
        (g\<lparr>Gauss_doCache := True, Gauss_cacheIdx := c\<rparr> # fst (cacheReal_calls cs (c + 1)),
         snd (cacheReal_calls cs (c + 1)))"
      by (simp add: a cacheReal_fixed [OF True] split: prod.splits)
    have n: "nCached (a # cs) = Suc ?n"
      using True by (simp add: a nCached_def)
    have upt: "[0..<Suc ?n] = 0 # map Suc [0..<?n]"
      by (simp only: map_Suc_upt upt_conv_Cons zero_less_Suc)
    have "assignedIdxs (fst (cacheReal_calls (a # cs) c))
        = c # map (\<lambda>i. c + 1 + of_nat i) [0..<?n]"
      unfolding step using Cons.IH [of "c + 1"] by (simp add: assignedIdxs_def)
    also have "\<dots> = map (\<lambda>i. c + of_nat i) [0..<Suc ?n]"
      by (simp only: upt) (simp add: comp_def algebra_simps)
    finally show ?thesis
      unfolding step n using Cons.IH [of "c + 1"] by (simp add: algebra_simps)
  next
    case False
    have step: "cacheReal_calls (a # cs) c =
        (g\<lparr>Gauss_doCache := False\<rparr> # fst (cacheReal_calls cs c), snd (cacheReal_calls cs c))"
      by (simp add: a cacheReal_floating [OF False] split: prod.splits)
    have n: "nCached (a # cs) = ?n"
      using False by (simp add: a nCached_def)
    show ?thesis
      unfolding step n using Cons.IH [of c] by (simp add: assignedIdxs_def)
  qed
qed

lemma consecutive_sorted:
  fixes c :: unsigned
  assumes "unat c + k \<le> 2 ^ 32"
  shows "sorted_wrt (<) (map (\<lambda>i. c + of_nat i) [0..<k])"
proof -
  have u: "unat (c + of_nat i) = unat c + i" if "i < k" for i
    using that assms by (simp add: unat_word_ariths unat_of_nat)
  have "c + of_nat i < c + of_nat j" if "i < j" "j < k" for i j
    using that u [of i] u [of j] by (simp add: word_less_nat_alt)
  then show ?thesis
    by (simp add: sorted_wrt_map sorted_wrt_iff_nth_less)
qed

lemma consecutive_distinct:
  fixes c :: unsigned
  assumes "k \<le> 2 ^ 32"
  shows "distinct (map (\<lambda>i. c + of_nat i) [0..<k])"
proof -
  have "i = j" if "i < k" "j < k" "c + of_nat i = c + of_nat j" for i j
  proof -
    from that(3) have "(of_nat i :: unsigned) = of_nat j" by simp
    then have "unat (of_nat i :: unsigned) = unat (of_nat j :: unsigned)" by simp
    with that(1,2) assms show ?thesis by (simp add: unat_of_nat)
  qed
  then show ?thesis
    by (auto simp: distinct_map inj_on_def)
qed

lemma nCached_replicate:
  "cacheable g \<Longrightarrow> nCached (replicate n (g, d)) = n"
  by (simp add: nCached_def)

text \<open>
  C4 as stated fails once the 32-bit counter has wrapped around: of \<open>2 ^ 32 + 1\<close>
  calls by a model with fixed parameters (here on an empty dataset), the first and the last are
  handed the same index.
\<close>

theorem cacheReal_calls_wrap_counterexample:
  "\<not> distinct (assignedIdxs (fst (cacheReal_calls (replicate (2 ^ 32 + 1) (gauss_fixed, [])) 0)))"
proof
  let ?f = "\<lambda>i. (0::unsigned) + of_nat i"
  assume "distinct (assignedIdxs (fst (cacheReal_calls (replicate (2 ^ 32 + 1) (gauss_fixed, [])) 0)))"
  then have "distinct (map ?f [0..<2 ^ 32 + 1])"
    by (simp only: cacheReal_calls_idxs nCached_replicate gauss_fixed_simps)
  then have "inj_on ?f {0..<2 ^ 32 + 1}"
    by (simp only: distinct_map set_upt)
  moreover have "?f 0 = ?f (2 ^ 32)"
    by simp
  ultimately have "(0::nat) = 2 ^ 32"
    by (rule inj_onD) simp_all
  then show False by simp
qed

text \<open>
  C4, as amended. Across any sequence of \<^verbatim>\<open>cacheReal\<close> calls the counter hands out
  consecutive values modulo \<open>2 ^ 32\<close>, one per call that caches. The indices are strictly
  increasing as long as the counter does not wrap around, and pairwise distinct as long as no
  more than \<open>2 ^ 32\<close> calls cache.
\<close>

theorem cacheReal_calls_indices:
  "assignedIdxs (fst (cacheReal_calls cs cacheIdxReal))
     = map (\<lambda>i. cacheIdxReal + of_nat i) [0..<nCached cs]
   \<and> snd (cacheReal_calls cs cacheIdxReal) = cacheIdxReal + of_nat (nCached cs)
   \<and> (unat cacheIdxReal + nCached cs \<le> 2 ^ 32 \<longrightarrow>
        sorted_wrt (<) (assignedIdxs (fst (cacheReal_calls cs cacheIdxReal))))
   \<and> (nCached cs \<le> 2 ^ 32 \<longrightarrow>
        distinct (assignedIdxs (fst (cacheReal_calls cs cacheIdxReal))))"
  using cacheReal_calls_idxs [of cs cacheIdxReal]
  by (simp add: consecutive_sorted consecutive_distinct)

theorem cacheReal_calls_indices_witness:
  "unat (5 :: unsigned) + nCached calls3 \<le> 2 ^ 32
   \<and> assignedIdxs (fst (cacheReal_calls calls3 5)) = [5, 6]
   \<and> snd (cacheReal_calls calls3 5) = 7
   \<and> sorted_wrt (<) (assignedIdxs (fst (cacheReal_calls calls3 5)))
   \<and> distinct (assignedIdxs (fst (cacheReal_calls calls3 5)))"
proof -
  have n: "nCached calls3 = 2"
    by (simp add: nCached_def calls3_def)
  have u: "[0..<2] = [0, Suc 0]"
    by (simp add: upt_rec)
  from cacheReal_calls_indices [of calls3 5] show ?thesis
    by (simp add: n u)
qed

lemma gauss_released_eq:
  "gauss_released = gauss_fixed\<lparr>Gauss_doCache := True, Gauss_cacheIdx := 0,
      Gauss_par0 := \<lparr>pvalue = 1, isFixed = False\<rparr>\<rparr>"
  by (simp add: gauss_released_def cacheReal_fixed)

section \<open>Releasing a parameter after caching\<close>

text \<open>
  C5, as amended. When a parameter of a Gauss model is floating, for instance after it was
  released on a model that had been cached, running \<^verbatim>\<open>cacheReal( data )\<close> again (as
  \<^verbatim>\<open>Minimizer::cache()\<close> does) sets \<^verbatim>\<open>_doCache\<close> to false and returns an empty
  mapping, and the cached-path \<^verbatim>\<open>evaluate( vars, cacheR, cacheC )\<close> then recomputes
  \<^verbatim>\<open>evaluate( vars )\<close> whatever \<open>cacheR\<close> holds. \<^verbatim>\<open>Gauss::cache()\<close> leaves
  \<^verbatim>\<open>_doCache\<close> as it is.
\<close>

theorem cacheReal_after_release:
  assumes floating: "\<not> (isFixed (Gauss_par0 g) \<and> isFixed (Gauss_par1 g))"
    and call: "cacheReal data (g, cacheIdxReal) = (cached, g', cacheIdxReal')"
  shows "\<not> Gauss_doCache g' \<and> cached = Map.empty
       \<and> Gauss_evaluate_cached g' vars cacheR cacheC = Gauss_evaluate_vars g' vars
       \<and> Gauss_evaluate_vars g' vars = Gauss_evaluate_vars g vars
       \<and> Gauss_doCache (Gauss_cache erf g) = Gauss_doCache g"
proof -
  from floating have "\<not> cacheable g"
    by (simp add: cacheable_def)
  from call cacheReal_floating [OF this] have "cached = Map.empty"
    and g': "g' = g\<lparr>Gauss_doCache := False\<rparr>"
    by simp_all
  then show ?thesis
    by (simp add: Gauss_evaluate_cached_def Gauss_evaluate_vars_def)
qed

theorem cacheReal_after_release_witness:
  "Gauss_doCache gauss_released
   \<and> \<not> (isFixed (Gauss_par0 gauss_released) \<and> isFixed (Gauss_par1 gauss_released))
   \<and> \<not> Gauss_doCache (fst (snd (cacheReal data2 (gauss_released, 1))))
   \<and> Gauss_evaluate_cached (fst (snd (cacheReal data2 (gauss_released, 1)))) [0]
        [Gauss_evaluate gauss_fixed 0] []
      = Gauss_evaluate_vars gauss_released [0]"
proof -
  have f: "\<not> (isFixed (Gauss_par0 gauss_released) \<and> isFixed (Gauss_par1 gauss_released))"
    by (simp add: gauss_released_eq)
  have c: "cacheReal data2 (gauss_released, 1)
     = (fst (cacheReal data2 (gauss_released, 1)), fst (snd (cacheReal data2 (gauss_released, 1))),
        snd (snd (cacheReal data2 (gauss_released, 1))))"
    by simp
  from cacheReal_after_release [OF f c, of "[0]" "[Gauss_evaluate gauss_fixed 0]" "[]" erf0] f
  show ?thesis
    by (simp add: gauss_released_eq)
qed

lemma Gauss_cache_no_limits:
  assumes "\<not> Gauss_hasLower g" "\<not> Gauss_hasUpper g"
  shows "Gauss_norm (Gauss_cache erf g) = Gauss_sigma g * sqrt (pi / 2) * 2"
  using assms by (simp add: Gauss_cache_def Let_def)

lemma gauss_fixed_limits [simp]:
  "\<not> Gauss_hasLower gauss_fixed" "\<not> Gauss_hasUpper gauss_fixed"
  by (simp_all add: gauss_fixed_def Gauss_new_def Gauss_cache_def Let_def)

lemma gauss_fixed_norm: "Gauss_norm gauss_fixed = 2 * sqrt (pi / 2)"
  by (simp add: gauss_fixed_def Gauss_new_def Gauss_cache_no_limits Gauss_sigma_def)

lemma gauss_released_simps [simp]:
  "Gauss_par0 gauss_released = \<lparr>pvalue = 1, isFixed = False\<rparr>"
  "Gauss_par1 gauss_released = \<lparr>pvalue = 1, isFixed = True\<rparr>"
  "Gauss_doCache gauss_released"
  "Gauss_cacheIdx gauss_released = 0"
  "\<not> Gauss_hasLower gauss_released"
  "\<not> Gauss_hasUpper gauss_released"
  by (simp_all add: gauss_released_eq)

text \<open>
  C5 as stated fails for \<^verbatim>\<open>Gauss::cache()\<close>: after \<open>mu\<close> is released and
  moved, \<^verbatim>\<open>cache()\<close> leaves \<^verbatim>\<open>_doCache\<close> true, and the cached path returns
  the value stored for the old \<open>mu\<close>, which is not the density at the new one.
\<close>

theorem Gauss_cache_keeps_doCache_counterexample:
  "Gauss_doCache (Gauss_cache erf0 gauss_released)
   \<and> isSliceOf (fst (cacheReal data2 (gauss_fixed, 0))) 0 [Gauss_evaluate gauss_fixed 0]
   \<and> Gauss_evaluate_cached (Gauss_cache erf0 gauss_released) [0] [Gauss_evaluate gauss_fixed 0] []
       = Some (Gauss_evaluate gauss_fixed 0)
   \<and> Gauss_evaluate_vars (Gauss_cache erf0 gauss_released) [0]
       \<noteq> Some (Gauss_evaluate gauss_fixed 0)"
proof -
  have s: "isSliceOf (fst (cacheReal data2 (gauss_fixed, 0))) 0 [Gauss_evaluate gauss_fixed 0]"
    by (simp add: cacheReal_fixed isSliceOf_def vec_at_def cachedValues_def Dataset_size_def
        Dataset_value_def data2_def)
  have n: "Gauss_norm (Gauss_cache erf0 gauss_released) = 2 * sqrt (pi / 2)"
    by (simp add: Gauss_cache_no_limits Gauss_sigma_def)
  have old: "Gauss_evaluate gauss_fixed 0 = 1 / (2 * sqrt (pi / 2))"
    by (simp add: Gauss_evaluate_def gauss_fixed_norm Gauss_mu_def Gauss_sigma_def)
  have new: "Gauss_evaluate (Gauss_cache erf0 gauss_released) 0
      = exp (- (1 / 2)) / (2 * sqrt (pi / 2))"
    by (simp add: Gauss_evaluate_def n Gauss_mu_def Gauss_sigma_def)
  have "exp (- (1 / 2)) \<noteq> (1::real)"
    by simp
  then have "exp (- (1 / 2)) / (2 * sqrt (pi / 2)) \<noteq> 1 / (2 * sqrt (pi / 2))"
    by (simp add: divide_cancel_right)
  with s show ?thesis
    by (simp add: Gauss_evaluate_cached_def Gauss_evaluate_vars_def vec_at_def old new)
qed

section \<open>Calling Minimizer::cache() twice\<close>

lemma map_insert_empty [simp]: "map_insert m Map.empty = m"
  by (auto simp: map_insert_def fun_eq_iff split: option.splits)

lemma map_insert_empty_left [simp]: "map_insert Map.empty new = new"
  by (simp add: map_insert_def)

lemma map_le_map_insert: "m \<subseteq>\<^sub>m map_insert m new"
  by (auto simp: map_le_def map_insert_def)

lemma cacheable_frame [simp]:
  "cacheable (g\<lparr>Gauss_doCache := b\<rparr>) = cacheable g"
  "cacheable (g\<lparr>Gauss_cacheIdx := i\<rparr>) = cacheable g"
  by (simp_all add: cacheable_def)

lemma Minimizer_cache_Some:
  assumes "cacheComplex (Minimizer_data m) = Some cachedC"
  shows "Minimizer_cache cacheComplex (m, c) =
     Some (m\<lparr>Minimizer_pdf := fst (snd (cacheReal (Minimizer_data m) (Minimizer_pdf m, c))),
             Minimizer_cacheR :=
               map_insert (Minimizer_cacheR m)
                 (fst (cacheReal (Minimizer_data m) (Minimizer_pdf m, c))),
             Minimizer_cacheC := map_insert (Minimizer_cacheC m) cachedC\<rparr>,
           snd (snd (cacheReal (Minimizer_data m) (Minimizer_pdf m, c))))"
  using assms by (simp add: Minimizer_cache_def split: prod.splits)

lemma Minimizer_cache_SomeD:
  assumes "Minimizer_cache cacheComplex (m, c) = Some s"
  shows "\<exists>cachedC. cacheComplex (Minimizer_data m) = Some cachedC
     \<and> Minimizer_cacheR (fst s)
         = map_insert (Minimizer_cacheR m) (fst (cacheReal (Minimizer_data m) (Minimizer_pdf m, c)))
     \<and> Minimizer_cacheC (fst s) = map_insert (Minimizer_cacheC m) cachedC
     \<and> Minimizer_pdf (fst s) = fst (snd (cacheReal (Minimizer_data m) (Minimizer_pdf m, c)))
     \<and> Minimizer_data (fst s) = Minimizer_data m
     \<and> snd s = snd (snd (cacheReal (Minimizer_data m) (Minimizer_pdf m, c)))"
proof (cases "cacheComplex (Minimizer_data m)")
  case None
  with assms show ?thesis
    by (simp add: Minimizer_cache_def split: prod.splits)
next
  case (Some cachedC)
  from assms show ?thesis
    unfolding Minimizer_cache_Some [of cacheComplex m cachedC c, OF Some] using Some by auto
qed

lemma map_insert_twice: "map_insert (map_insert m new) new = map_insert m new"
  by (auto simp: map_insert_def fun_eq_iff split: option.splits)

text \<open>
  C6, as amended. Whenever two calls of \<^verbatim>\<open>Minimizer::cache()\<close> in a row both return,
  which needs \<^verbatim>\<open>_pdf.cacheComplex( _data )\<close> to return a mapping each time, the
  second call keeps every entry of \<^verbatim>\<open>_cacheR\<close> and \<^verbatim>\<open>_cacheC\<close> that the first
  call left, and \<^verbatim>\<open>_cacheC\<close> is the same if \<^verbatim>\<open>cacheComplex\<close> returns the same
  mapping again. \<^verbatim>\<open>_cacheR\<close> is the same if the model has a floating parameter or the
  dataset is empty; otherwise the second call takes the next index and inserts the sequence of
  values once more under it (as every insertion, only if that key is not in the storage yet).
  Nothing is stated for a \<^verbatim>\<open>cacheComplex\<close> that does not return.
\<close>

theorem Minimizer_cache_twice:
  assumes first: "Minimizer_cache cacheComplex1 (m, c) = Some once"
    and second: "Minimizer_cache cacheComplex2 once = Some twice"
  shows "Minimizer_cacheR (fst once) \<subseteq>\<^sub>m Minimizer_cacheR (fst twice)
       \<and> Minimizer_cacheC (fst once) \<subseteq>\<^sub>m Minimizer_cacheC (fst twice)
       \<and> (cacheComplex2 (Minimizer_data m) = cacheComplex1 (Minimizer_data m) \<longrightarrow>
            Minimizer_cacheC (fst twice) = Minimizer_cacheC (fst once))
       \<and> (\<not> (cacheable (Minimizer_pdf m) \<and> Minimizer_data m \<noteq> []) \<longrightarrow>
            Minimizer_cacheR (fst twice) = Minimizer_cacheR (fst once))
       \<and> (cacheable (Minimizer_pdf m) \<and> Minimizer_data m \<noteq> [] \<longrightarrow>
            Minimizer_cacheR (fst twice)
              = map_insert (Minimizer_cacheR (fst once))
                  [c + 1 \<mapsto> cachedValues (Minimizer_pdf m) (Minimizer_data m)]
            \<and> Gauss_cacheIdx (Minimizer_pdf (fst twice)) = c + 1
            \<and> snd twice = c + 2)"
proof -
  obtain m1 c1 where s1: "once = (m1, c1)"
    by (cases once)
  from Minimizer_cache_SomeD [OF first] obtain cc1 where
    cc1: "cacheComplex1 (Minimizer_data m) = Some cc1"
    and R1: "Minimizer_cacheR m1
      = map_insert (Minimizer_cacheR m) (fst (cacheReal (Minimizer_data m) (Minimizer_pdf m, c)))"
    and C1: "Minimizer_cacheC m1 = map_insert (Minimizer_cacheC m) cc1"
    and P1: "Minimizer_pdf m1 = fst (snd (cacheReal (Minimizer_data m) (Minimizer_pdf m, c)))"
    and D1: "Minimizer_data m1 = Minimizer_data m"
    and N1: "c1 = snd (snd (cacheReal (Minimizer_data m) (Minimizer_pdf m, c)))"
    by (auto simp: s1)
  from Minimizer_cache_SomeD [OF second [unfolded s1]] obtain cc2 where
    cc2: "cacheComplex2 (Minimizer_data m) = Some cc2"
    and R2: "Minimizer_cacheR (fst twice)
      = map_insert (Minimizer_cacheR m1) (fst (cacheReal (Minimizer_data m) (Minimizer_pdf m1, c1)))"
    and C2: "Minimizer_cacheC (fst twice) = map_insert (Minimizer_cacheC m1) cc2"
    and P2: "Minimizer_pdf (fst twice) = fst (snd (cacheReal (Minimizer_data m) (Minimizer_pdf m1, c1)))"
    and N2: "snd twice = snd (snd (cacheReal (Minimizer_data m) (Minimizer_pdf m1, c1)))"
    by (auto simp: D1)
  have leR: "Minimizer_cacheR (fst once) \<subseteq>\<^sub>m Minimizer_cacheR (fst twice)"
    by (simp add: s1 R2 map_le_map_insert)
  have leC: "Minimizer_cacheC (fst once) \<subseteq>\<^sub>m Minimizer_cacheC (fst twice)"
    by (simp add: s1 C2 map_le_map_insert)
  have eqC: "Minimizer_cacheC (fst twice) = Minimizer_cacheC (fst once)"
    if "cacheComplex2 (Minimizer_data m) = cacheComplex1 (Minimizer_data m)"
  proof -
    from that cc1 cc2 have "cc2 = cc1"
      by simp
    then show ?thesis
      by (simp add: s1 C2 C1 map_insert_twice)
  qed
  show ?thesis
  proof (cases "cacheable (Minimizer_pdf m)")
    case True
    have P1': "Minimizer_pdf m1 = (Minimizer_pdf m)\<lparr>Gauss_doCache := True, Gauss_cacheIdx := c\<rparr>"
      and N1': "c1 = c + 1"
      by (simp_all add: P1 N1 cacheReal_fixed [OF True])
    have T1: "cacheable (Minimizer_pdf m1)"
      using True by (simp add: P1')
    have "Minimizer_cacheR (fst twice) = Minimizer_cacheR (fst once)"
      if "Minimizer_data m = []"
      using that by (simp add: R2 s1 cacheReal_fixed [OF T1])
    moreover have "Minimizer_cacheR (fst twice)
        = map_insert (Minimizer_cacheR (fst once))
            [c + 1 \<mapsto> cachedValues (Minimizer_pdf m) (Minimizer_data m)]
      \<and> Gauss_cacheIdx (Minimizer_pdf (fst twice)) = c + 1 \<and> snd twice = c + 2"
      if "Minimizer_data m \<noteq> []"
      using that by (simp add: R2 P2 N2 s1 N1' cacheReal_fixed [OF T1]) (simp add: P1')
    ultimately show ?thesis
      using leR leC eqC True by blast
  next
    case False
    have P1': "Minimizer_pdf m1 = (Minimizer_pdf m)\<lparr>Gauss_doCache := False\<rparr>"
      by (simp add: P1 cacheReal_floating [OF False])
    have T1: "\<not> cacheable (Minimizer_pdf m1)"
      using False by (simp add: P1')
    have "Minimizer_cacheR (fst twice) = Minimizer_cacheR (fst once)"
      by (simp add: R2 s1 cacheReal_floating [OF T1])
    then show ?thesis
      using leR leC eqC False by blast
  qed
qed

lemma minimizer_once_eq:
  "Minimizer_cache cacheComplex_empty (Minimizer_new gauss_fixed data2, 0) = Some minimizer_once"
proof -
  have c: "cacheComplex_empty (Minimizer_data (Minimizer_new gauss_fixed data2)) = Some Map.empty"
    by (simp add: cacheComplex_empty_def)
  have d: "data2 \<noteq> []"
    by (simp add: data2_def)
  show ?thesis
    unfolding Minimizer_cache_Some
      [of cacheComplex_empty "Minimizer_new gauss_fixed data2" Map.empty 0, OF c]
    using d by (simp add: minimizer_once_def Minimizer_new_def cacheReal_fixed)
qed

lemma map_insert_0_1:
  "map_insert [(0::unsigned) \<mapsto> v] [1 \<mapsto> w] = [0 \<mapsto> v, 1 \<mapsto> w]"
  by (auto simp: map_insert_def fun_eq_iff)

lemma minimizer_twice_eq:
  "Minimizer_cache cacheComplex_empty minimizer_once = Some minimizer_twice"
proof -
  let ?m = "fst minimizer_once"
  have p: "minimizer_once = (?m, 1)"
    by (simp add: minimizer_once_def)
  have c: "cacheComplex_empty (Minimizer_data ?m) = Some Map.empty"
    by (simp add: cacheComplex_empty_def)
  have d: "data2 \<noteq> []"
    by (simp add: data2_def)
  have "Minimizer_cache cacheComplex_empty (?m, 1) = Some minimizer_twice"
    unfolding Minimizer_cache_Some [of cacheComplex_empty ?m Map.empty 1, OF c] using d
    by (simp add: minimizer_once_def minimizer_twice_def Minimizer_new_def cacheReal_fixed
        map_insert_0_1)
  with p show ?thesis
    by simp
qed

lemma minimizer_floating_eq:
  "Minimizer_cache cacheComplex_empty (Minimizer_new gauss_floating data2, 0)
     = Some minimizer_floating"
  "Minimizer_cache cacheComplex_empty minimizer_floating = Some minimizer_floating"
proof -
  let ?m = "fst minimizer_floating"
  have p: "minimizer_floating = (?m, 0)"
    by (simp add: minimizer_floating_def)
  have c: "cacheComplex_empty (Minimizer_data (Minimizer_new gauss_floating data2)) = Some Map.empty"
    "cacheComplex_empty (Minimizer_data ?m) = Some Map.empty"
    by (simp_all add: cacheComplex_empty_def)
  show "Minimizer_cache cacheComplex_empty (Minimizer_new gauss_floating data2, 0)
      = Some minimizer_floating"
    unfolding Minimizer_cache_Some
      [of cacheComplex_empty "Minimizer_new gauss_floating data2" Map.empty 0, OF c(1)]
    by (simp add: minimizer_floating_def Minimizer_new_def cacheReal_floating)
  have "Minimizer_cache cacheComplex_empty (?m, 0) = Some minimizer_floating"
    unfolding Minimizer_cache_Some [of cacheComplex_empty ?m Map.empty 0, OF c(2)]
    by (simp add: minimizer_floating_def Minimizer_new_def cacheReal_floating cacheable_def)
  with p show "Minimizer_cache cacheComplex_empty minimizer_floating = Some minimizer_floating"
    by simp
qed

theorem Minimizer_cache_twice_witness:
  "Minimizer_cache cacheComplex_empty (Minimizer_new gauss_fixed data2, 0) = Some minimizer_once
   \<and> Minimizer_cache cacheComplex_empty minimizer_once = Some minimizer_twice
   \<and> cacheable gauss_fixed \<and> data2 \<noteq> []
   \<and> Minimizer_cacheR (fst minimizer_twice)
       = map_insert (Minimizer_cacheR (fst minimizer_once)) [1 \<mapsto> cachedValues gauss_fixed data2]
   \<and> Gauss_cacheIdx (Minimizer_pdf (fst minimizer_twice)) = 1
   \<and> snd minimizer_twice = 2
   \<and> Minimizer_cacheC (fst minimizer_twice) = Minimizer_cacheC (fst minimizer_once)
   \<and> Minimizer_cache cacheComplex_empty (Minimizer_new gauss_floating data2, 0)
       = Some minimizer_floating
   \<and> Minimizer_cache cacheComplex_empty minimizer_floating = Some minimizer_floating
   \<and> \<not> cacheable gauss_floating
   \<and> Minimizer_cacheR (fst minimizer_floating) = Map.empty"
proof -
  have d: "data2 \<noteq> []"
    by (simp add: data2_def)
  have f: "Minimizer_pdf (Minimizer_new gauss_fixed data2) = gauss_fixed"
    "Minimizer_data (Minimizer_new gauss_fixed data2) = data2"
    "Minimizer_pdf (Minimizer_new gauss_floating data2) = gauss_floating"
    by (simp_all add: Minimizer_new_def)
  have e: "Minimizer_cacheR (fst minimizer_floating) = Map.empty"
    by (simp add: minimizer_floating_def Minimizer_new_def)
  from Minimizer_cache_twice [OF minimizer_once_eq minimizer_twice_eq]
    Minimizer_cache_twice [OF minimizer_floating_eq]
    minimizer_once_eq minimizer_twice_eq minimizer_floating_eq d e
  show ?thesis
    by (simp add: f)
qed

text \<open>
  C6 as stated fails. With \<^verbatim>\<open>PdfBase::cacheComplex\<close> as the sources have it, the first
  \<^verbatim>\<open>cache()\<close> on a Gauss model already has undefined behaviour and leaves no storage to
  compare. With a \<^verbatim>\<open>cacheComplex\<close> that returns, for a model with fixed parameters on
  a dataset that is not empty the second call stores the values again, under index 1, and the
  storage differs from the one of a single call.
\<close>

theorem Minimizer_cache_twice_counterexample:
  "Minimizer_cache PdfBase_cacheComplex (Minimizer_new gauss_fixed data2, 0) = None
   \<and> Minimizer_cache cacheComplex_empty (Minimizer_new gauss_fixed data2, 0) = Some minimizer_once
   \<and> Minimizer_cache cacheComplex_empty minimizer_once = Some minimizer_twice
   \<and> dom (Minimizer_cacheR (fst minimizer_once)) = {0}
   \<and> dom (Minimizer_cacheR (fst minimizer_twice)) = {0, 1}
   \<and> Minimizer_cacheR (fst minimizer_twice) \<noteq> Minimizer_cacheR (fst minimizer_once)"
proof -
  have u: "Minimizer_cache PdfBase_cacheComplex (Minimizer_new gauss_fixed data2, 0) = None"
    by (simp add: Minimizer_cache_def PdfBase_cacheComplex_def split: prod.splits)
  have D1: "dom (Minimizer_cacheR (fst minimizer_once)) = {0}"
    by (simp add: minimizer_once_def)
  have D2: "dom (Minimizer_cacheR (fst minimizer_twice)) = {0, 1}"
    by (auto simp: minimizer_twice_def)
  have "dom (Minimizer_cacheR (fst minimizer_twice)) \<noteq> dom (Minimizer_cacheR (fst minimizer_once))"
    by (simp only: D1 D2) simp
  then have "Minimizer_cacheR (fst minimizer_twice) \<noteq> Minimizer_cacheR (fst minimizer_once)"
    by auto
  with u D1 D2 minimizer_once_eq minimizer_twice_eq show ?thesis
    by blast
qed


section \<open>The limits of Argus\<close>

text \<open>
  C8. \<^verbatim>\<open>Argus::setLowerLimit\<close>, \<^verbatim>\<open>Argus::setUpperLimit\<close> and
  \<^verbatim>\<open>Argus::setLimits\<close> throw a \<^verbatim>\<open>PdfException\<close> if and only if a negative bound
  is passed, and when they throw, the object (its limits and its \<^verbatim>\<open>_norm\<close> among the
  fields) is left unchanged.
\<close>

theorem Argus_limits_throw:
  "(isl (fst (Argus_setLowerLimit gamma_p lower a)) \<longleftrightarrow> lower < 0)
   \<and> (isl (fst (Argus_setUpperLimit gamma_p upper a)) \<longleftrightarrow> upper < 0)
   \<and> (isl (fst (Argus_setLimits gamma_p lower upper a)) \<longleftrightarrow> lower < 0 \<or> upper < 0)
   \<and> (isl (fst (Argus_setLowerLimit gamma_p lower a)) \<longrightarrow>
        snd (Argus_setLowerLimit gamma_p lower a) = a)
   \<and> (isl (fst (Argus_setUpperLimit gamma_p upper a)) \<longrightarrow>
        snd (Argus_setUpperLimit gamma_p upper a) = a)
   \<and> (isl (fst (Argus_setLimits gamma_p lower upper a)) \<longrightarrow>
        snd (Argus_setLimits gamma_p lower upper a) = a)"
  by (simp add: Argus_setLowerLimit_def Argus_setUpperLimit_def Argus_setLimits_def)

theorem Argus_limits_throw_witness:
  "isl (fst (Argus_setLowerLimit gamma_p0 (- 1) argus5))
   \<and> snd (Argus_setLowerLimit gamma_p0 (- 1) argus5) = argus5
   \<and> isl (fst (Argus_setUpperLimit gamma_p0 (- 1) argus5))
   \<and> snd (Argus_setUpperLimit gamma_p0 (- 1) argus5) = argus5
   \<and> isl (fst (Argus_setLimits gamma_p0 1 (- 1) argus5))
   \<and> snd (Argus_setLimits gamma_p0 1 (- 1) argus5) = argus5
   \<and> \<not> isl (fst (Argus_setLimits gamma_p0 1 4 argus5))"
  using Argus_limits_throw [of gamma_p0 "- 1" argus5 "- 1"]
    Argus_limits_throw [of gamma_p0 1 argus5 "- 1"]
    Argus_limits_throw [of gamma_p0 1 argus5 4]
  by simp

section \<open>The area of Argus without limits\<close>

lemma Argus_cache_frame [simp]:
  "Argus_par0 (Argus_cache gamma_p a) = Argus_par0 a"
  "Argus_par1 (Argus_cache gamma_p a) = Argus_par1 a"
  "Argus_hasLower (Argus_cache gamma_p a) = Argus_hasLower a"
  "Argus_hasUpper (Argus_cache gamma_p a) = Argus_hasUpper a"
  "Argus_lower (Argus_cache gamma_p a) = Argus_lower a"
  "Argus_upper (Argus_cache gamma_p a) = Argus_upper a"
  by (simp_all add: Argus_cache_def Let_def)

lemma Argus_area_no_limits_eq:
  assumes "\<not> Argus_hasLower a" "\<not> Argus_hasUpper a"
  shows "Argus_area gamma_p a mn mx =
     (if (Argus_chi a) ^ 2 = 0 then (Argus_c a) ^ 2 / 3 / Argus_norm a
      else (Argus_c a) ^ 2 / (2 * (Argus_chi a) ^ 3) * sqrt (pi / 2)
           * ((gamma_p 1.5 ((Argus_chi a) ^ 2) - gamma_p 1.5 0) / Argus_norm a))"
  using assms by (simp add: Argus_area_def Let_def std_pow_def)

text \<open>
  C9, as amended. For every Argus model with no limits set whose parameters are unchanged since
  the last \<^verbatim>\<open>cache()\<close>, the arguments \<open>min\<close> and \<open>max\<close> do not affect
  \<^verbatim>\<open>area( min, max )\<close>, because the integration bounds fall back to the full support:
  every pair gives the value of \<^verbatim>\<open>area( 0, c )\<close>.
\<close>

theorem Argus_area_no_limits:
  assumes "\<not> Argus_hasLower a" "\<not> Argus_hasUpper a"
  shows "Argus_area gamma_p (Argus_cache gamma_p a) mn mx
           = Argus_area gamma_p (Argus_cache gamma_p a) mn' mx'
       \<and> Argus_area gamma_p (Argus_cache gamma_p a) mn mx
           = Argus_area gamma_p (Argus_cache gamma_p a) 0 (Argus_c a)"
proof -
  let ?a = "Argus_cache gamma_p a"
  have l: "\<not> Argus_hasLower ?a" "\<not> Argus_hasUpper ?a"
    using assms by simp_all
  have "Argus_area gamma_p ?a x y = Argus_area gamma_p ?a x' y'" for x y x' y'
    by (simp only: Argus_area_no_limits_eq [OF l])
  then show ?thesis
    by blast
qed

lemma argus5_eq:
  "argus5 = \<lparr>Argus_par0 = \<lparr>pvalue = 5, isFixed = True\<rparr>, Argus_par1 = \<lparr>pvalue = 0, isFixed = True\<rparr>,
      Argus_hasLower = False, Argus_hasUpper = False, Argus_lower = 0, Argus_upper = 0,
      Argus_norm = 25 / 3\<rparr>"
  by (simp add: argus5_def Argus_new_def Argus_cache_def Let_def Argus_c_def Argus_chi_def
      std_pow_def)

lemma argus0_eq:
  "argus0 = \<lparr>Argus_par0 = \<lparr>pvalue = 0, isFixed = True\<rparr>, Argus_par1 = \<lparr>pvalue = 0, isFixed = True\<rparr>,
      Argus_hasLower = False, Argus_hasUpper = False, Argus_lower = 0, Argus_upper = 0,
      Argus_norm = 0\<rparr>"
  by (simp add: argus0_def Argus_new_def Argus_cache_def Let_def Argus_c_def Argus_chi_def
      std_pow_def)

theorem Argus_area_no_limits_witness:
  "\<not> Argus_hasLower argus5 \<and> \<not> Argus_hasUpper argus5
   \<and> Argus_area gamma_p0 (Argus_cache gamma_p0 argus5) 1 2
       = Argus_area gamma_p0 (Argus_cache gamma_p0 argus5) (- 3) 7
   \<and> Argus_area gamma_p0 (Argus_cache gamma_p0 argus5) 1 2
       = Argus_area gamma_p0 (Argus_cache gamma_p0 argus5) 0 5
   \<and> \<not> Argus_hasLower argus51 \<and> \<not> Argus_hasUpper argus51
   \<and> Argus_area gamma_p0 (Argus_cache gamma_p0 argus51) 1 2
       = Argus_area gamma_p0 (Argus_cache gamma_p0 argus51) (- 3) 7"
proof -
  have l: "\<not> Argus_hasLower argus5" "\<not> Argus_hasUpper argus5"
    by (simp_all add: argus5_eq)
  have l': "\<not> Argus_hasLower argus51" "\<not> Argus_hasUpper argus51"
    by (simp_all add: argus51_def Argus_new_def)
  have c: "Argus_c argus5 = 5"
    by (simp add: argus5_eq Argus_c_def)
  from Argus_area_no_limits [OF l, of gamma_p0 1 2 "- 3" 7]
    Argus_area_no_limits [OF l', of gamma_p0 1 2 "- 3" 7] l l' c
  show ?thesis
    by simp
qed

text \<open>
  C9 as stated fails for \<open>c = 0\<close>: the cached \<^verbatim>\<open>_norm\<close> is zero and
  \<^verbatim>\<open>area\<close> divides zero by it, which is not 1 (a NaN in the source, 0 in the model).
\<close>

theorem Argus_area_zero_norm_counterexample:
  "\<not> Argus_hasLower argus0 \<and> \<not> Argus_hasUpper argus0
   \<and> Argus_cache gamma_p0 argus0 = argus0
   \<and> Argus_norm argus0 = 0
   \<and> Argus_area gamma_p0 argus0 0 1 \<noteq> 1"
  by (simp add: argus0_eq Argus_cache_def Argus_area_def Let_def Argus_c_def Argus_chi_def
      std_pow_def)

section \<open>The normalization components of Decay3BodyCP\<close>

text \<open>
  C2. For every call of either overload of \<^verbatim>\<open>Decay3BodyCP::setNormComponents\<close>: if the
  amplitude is not fixed, \<^verbatim>\<open>_nDir\<close>, \<^verbatim>\<open>_nCnj\<close> and \<^verbatim>\<open>_nXed\<close> are left
  unchanged; if it is fixed, they are set from the arguments (in the overload of two arguments
  \<^verbatim>\<open>_nCnj\<close> is set from \<open>nDir\<close>).
\<close>

theorem setNormComponents_honoured_iff_fixed:
  "(\<not> amp_isFixed (Decay3BodyCP_amp d) \<longrightarrow>
      nDir (setNormComponents amp_isFixed a b z d) = nDir d
      \<and> nCnj (setNormComponents amp_isFixed a b z d) = nCnj d
      \<and> nXed (setNormComponents amp_isFixed a b z d) = nXed d
      \<and> nDir (setNormComponents2 amp_isFixed a z d) = nDir d
      \<and> nCnj (setNormComponents2 amp_isFixed a z d) = nCnj d
      \<and> nXed (setNormComponents2 amp_isFixed a z d) = nXed d)
   \<and> (amp_isFixed (Decay3BodyCP_amp d) \<longrightarrow>
      nDir (setNormComponents amp_isFixed a b z d) = a
      \<and> nCnj (setNormComponents amp_isFixed a b z d) = b
      \<and> nXed (setNormComponents amp_isFixed a b z d) = z
      \<and> nDir (setNormComponents2 amp_isFixed a z d) = a
      \<and> nCnj (setNormComponents2 amp_isFixed a z d) = a
      \<and> nXed (setNormComponents2 amp_isFixed a z d) = z)"
  by (simp add: setNormComponents_def setNormComponents2_def nDir_def nCnj_def nXed_def Let_def)

theorem setNormComponents_honoured_iff_fixed_witness:
  "\<not> params_isFixed (Decay3BodyCP_amp decay_floating)
   \<and> nDir (setNormComponents params_isFixed 7 8 9 decay_floating) = 1
   \<and> nCnj (setNormComponents params_isFixed 7 8 9 decay_floating) = 2
   \<and> nXed (setNormComponents params_isFixed 7 8 9 decay_floating) = \<i>
   \<and> nCnj (setNormComponents2 params_isFixed 7 9 decay_floating) = 2
   \<and> params_isFixed (Decay3BodyCP_amp decay_fixed)
   \<and> nDir (setNormComponents params_isFixed 7 8 9 decay_fixed) = 7
   \<and> nCnj (setNormComponents params_isFixed 7 8 9 decay_fixed) = 8
   \<and> nXed (setNormComponents params_isFixed 7 8 9 decay_fixed) = 9
   \<and> nDir (setNormComponents2 params_isFixed 7 9 decay_fixed) = 7
   \<and> nXed (setNormComponents2 params_isFixed 7 9 decay_fixed) = 9"
proof -
  have f: "\<not> params_isFixed (Decay3BodyCP_amp decay_floating)"
    "params_isFixed (Decay3BodyCP_amp decay_fixed)"
    by (simp_all add: params_isFixed_def decay_floating_def decay_fixed_def)
  have d: "nDir decay_floating = 1" "nCnj decay_floating = 2" "nXed decay_floating = \<i>"
    by (simp_all add: nDir_def nCnj_def nXed_def decay_floating_def)
  from setNormComponents_honoured_iff_fixed [of params_isFixed decay_floating 7 8 9]
    setNormComponents_honoured_iff_fixed [of params_isFixed decay_fixed 7 8 9] f d
  show ?thesis
    by simp
qed

text \<open>
  C10. For every call of \<^verbatim>\<open>setNormComponents( nDir, nXed )\<close> while the amplitude is
  fixed, \<^verbatim>\<open>_nCnj\<close> is set to the argument \<open>nDir\<close>, so that \<^verbatim>\<open>nCnj()\<close> returns
  the same value as \<^verbatim>\<open>nDir()\<close> afterwards.
\<close>

theorem setNormComponents2_nCnj:
  assumes "amp_isFixed (Decay3BodyCP_amp d)"
  shows "nCnj (setNormComponents2 amp_isFixed a z d) = a
       \<and> nCnj (setNormComponents2 amp_isFixed a z d) = nDir (setNormComponents2 amp_isFixed a z d)"
  using assms
  by (simp add: setNormComponents2_def nDir_def nCnj_def Let_def)

theorem setNormComponents2_nCnj_witness:
  "params_isFixed (Decay3BodyCP_amp decay_fixed)
   \<and> nCnj decay_fixed = 2
   \<and> nCnj (setNormComponents2 params_isFixed 7 9 decay_fixed) = 7
   \<and> nDir (setNormComponents2 params_isFixed 7 9 decay_fixed) = 7"
proof -
  have f: "params_isFixed (Decay3BodyCP_amp decay_fixed)"
    by (simp add: params_isFixed_def decay_fixed_def)
  have d: "nCnj decay_fixed = 2"
    by (simp add: nCnj_def decay_fixed_def)
  from setNormComponents2_nCnj [of params_isFixed decay_fixed 7 9, OF f] f d show ?thesis
    by simp
qed

end
